theory Spec2Isabelle
  imports Complex_Main "HOL-Library.Sublist"
begin

section \<open>JavaScript values\<close>

text \<open>
  The handlers of \<^verbatim>\<open>server.js\<close> read fields of JSON request bodies. A field is
  absent (\<^verbatim>\<open>undefined\<close>), \<^verbatim>\<open>null\<close>, a boolean, a number or a string. Numbers are
  IEEE doubles; the handlers only compare them and round them to an integer, and both
  operations are exact on doubles, so a finite number is modelled by the real it denotes
  (the sign of zero is not kept). Strings are the UTF-8 bytes of their text. Arrays and
  objects as field values are outside this model, except where a record or a list stands
  for them (the metadata object, the order, its items).
\<close>

datatype jsnum = NaN | NegInf | Fin real | PosInf

datatype jsval = JUndefined | JNull | JBool bool | JNum jsnum | JStr string

text \<open>
  Built-ins of the JavaScript runtime whose result depends on the binary representation of
  a double (the shortest decimal that reads back, the nearest double of a decimal) are
  parameters of the model: every theorem holds for every runtime.
\<close>

record js_runtime =
  StringToNumber :: "string \<Rightarrow> jsnum"
  NumberToString :: "real \<Rightarrow> string"
  toFixed2 :: "real \<Rightarrow> string"

text \<open>\<^verbatim>\<open>!v\<close> is the negation of ToBoolean.\<close>

fun ToBoolean :: "jsval \<Rightarrow> bool" where
  "ToBoolean JUndefined = False"
| "ToBoolean JNull = False"
| "ToBoolean (JBool b) = b"
| "ToBoolean (JNum NaN) = False"
| "ToBoolean (JNum (Fin r)) = (r \<noteq> 0)"
| "ToBoolean (JNum NegInf) = True"
| "ToBoolean (JNum PosInf) = True"
| "ToBoolean (JStr s) = (s \<noteq> [])"

fun ToNumber :: "js_runtime \<Rightarrow> jsval \<Rightarrow> jsnum" where
  "ToNumber rt JUndefined = NaN"
| "ToNumber rt JNull = Fin 0"
| "ToNumber rt (JBool b) = Fin (if b then 1 else 0)"
| "ToNumber rt (JNum n) = n"
| "ToNumber rt (JStr s) = StringToNumber rt s"

text \<open>The comparison \<^verbatim>\<open>x < y\<close> of two numbers: false as soon as one is NaN.\<close>

fun js_less :: "jsnum \<Rightarrow> jsnum \<Rightarrow> bool" where
  "js_less NaN y = False"
| "js_less x NaN = False"
| "js_less NegInf NegInf = False"
| "js_less NegInf y = True"
| "js_less (Fin a) NegInf = False"
| "js_less (Fin a) (Fin b) = (a < b)"
| "js_less (Fin a) PosInf = True"
| "js_less PosInf y = False"

text \<open>
  \<^verbatim>\<open>Math.round\<close>: the nearest integer, a tie going to the greater one.
\<close>

fun Math_round :: "jsnum \<Rightarrow> jsnum" where
  "Math_round (Fin r) = Fin (of_int \<lfloor>r + 1 / 2\<rfloor>)"
| "Math_round n = n"

text \<open>The string a template literal \<^verbatim>\<open>${v}\<close> inserts.\<close>

fun Number_toString :: "js_runtime \<Rightarrow> jsnum \<Rightarrow> string" where
  "Number_toString rt NaN = ''NaN''"
| "Number_toString rt NegInf = ''-Infinity''"
| "Number_toString rt PosInf = ''Infinity''"
| "Number_toString rt (Fin r) = NumberToString rt r"

fun ToString :: "js_runtime \<Rightarrow> jsval \<Rightarrow> string" where
  "ToString rt JUndefined = ''undefined''"
| "ToString rt JNull = ''null''"
| "ToString rt (JBool b) = (if b then ''true'' else ''false'')"
| "ToString rt (JNum n) = Number_toString rt n"
| "ToString rt (JStr s) = s"

text \<open>\<^verbatim>\<open>a || b\<close> on values.\<close>

definition js_or :: "jsval \<Rightarrow> jsval \<Rightarrow> jsval" where
  "js_or a b = (if ToBoolean a then a else b)"

subsection \<open>Text outside ASCII, as UTF-8\<close>

definition c_cedilla :: string where
  "c_cedilla = [CHR 0xC3, CHR 0xA7]"

definition e_acute :: string where
  "e_acute = [CHR 0xC3, CHR 0xA9]"

definition e_grave :: string where
  "e_grave = [CHR 0xC3, CHR 0xA8]"

definition a_grave :: string where
  "a_grave = [CHR 0xC3, CHR 0xA0]"

definition capital_E_acute :: string where
  "capital_E_acute = [CHR 0xC3, CHR 0x89]"

definition degree_sign :: string where
  "degree_sign = [CHR 0xC2, CHR 0xB0]"

definition copyright_sign :: string where
  "copyright_sign = [CHR 0xC2, CHR 0xA9]"

definition euro :: string where
  "euro = [CHR 0xE2, CHR 0x82, CHR 0xAC]"

definition check_mark :: string where
  "check_mark = [CHR 0xE2, CHR 0x9C, CHR 0x85]"

definition cross_mark :: string where
  "cross_mark = [CHR 0xE2, CHR 0x9D, CHR 0x8C]"

definition bell :: string where
  "bell = [CHR 0xF0, CHR 0x9F, CHR 0x94, CHR 0x94]"

definition e_mail_symbol :: string where
  "e_mail_symbol = [CHR 0xF0, CHR 0x9F, CHR 0x93, CHR 0xA7]"

section \<open>Responses and effects\<close>

datatype res_body = Json "(string \<times> jsval) list" | Text string

record response =
  status :: nat
  body :: res_body

text \<open>\<^verbatim>\<open>res.json(x)\<close> answers 200 unless \<^verbatim>\<open>res.status\<close> was called first.\<close>

definition res_json :: "(string \<times> jsval) list \<Rightarrow> response" where
  "res_json kvs = \<lparr>status = 200, body = Json kvs\<rparr>"

definition res_status_json :: "nat \<Rightarrow> (string \<times> jsval) list \<Rightarrow> response" where
  "res_status_json code kvs = \<lparr>status = code, body = Json kvs\<rparr>"

definition res_status_send :: "nat \<Rightarrow> string \<Rightarrow> response" where
  "res_status_send code txt = \<lparr>status = code, body = Text txt\<rparr>"

text \<open>The parameters of \<^verbatim>\<open>stripe.paymentIntents.create\<close>, and what it resolves to.\<close>

record intent_params =
  pi_amount :: jsnum
  pi_currency :: jsval
  pi_automatic_payment_methods_enabled :: bool
  pi_metadata :: "string \<rightharpoonup> jsval"

record payment_intent =
  client_secret :: jsval
  intent_id :: jsval

text \<open>A message handed to \<^verbatim>\<open>transporter.sendMail\<close>.\<close>

record email =
  mail_from :: string
  mail_to :: jsval
  subject :: string
  html :: string

text \<open>
  What a handler does besides answering, in the order it does it. An argument of a
  console call is a value or a caught error object (with its message).
\<close>

datatype log_arg = Val jsval | ErrorObject string

datatype effect =
  ConsoleLog "log_arg list"
| ConsoleError "log_arg list"
| PaymentIntentsCreate intent_params
| SendMail email

section \<open>POST /create-payment-intent\<close>

text \<open>
  The JSON body, destructured as \<^verbatim>\<open>{ amount, currency = 'eur', metadata = {} }\<close>:
  a default applies exactly when the field is \<^verbatim>\<open>undefined\<close>. The metadata field, when
  supplied, is an object.
\<close>

record payment_body =
  amount :: jsval
  currency :: jsval
  metadata :: "(string \<rightharpoonup> jsval) option"

definition minimum_amount_message :: string where
  "minimum_amount_message = ''Le montant minimum est de 0.50'' @ euro"

definition default_currency :: "jsval \<Rightarrow> jsval" where
  "default_currency c = (if c = JUndefined then JStr ''eur'' else c)"

definition default_metadata :: "(string \<rightharpoonup> jsval) option \<Rightarrow> (string \<rightharpoonup> jsval)" where
  "default_metadata m = (case m of None \<Rightarrow> Map.empty | Some obj \<Rightarrow> obj)"

text \<open>The test \<^verbatim>\<open>!amount || amount < 50\<close> of the handler.\<close>

definition amount_rejected :: "js_runtime \<Rightarrow> jsval \<Rightarrow> bool" where
  "amount_rejected rt a = (\<not> ToBoolean a \<or> js_less (ToNumber rt a) (Fin 50))"

definition create_params :: "js_runtime \<Rightarrow> payment_body \<Rightarrow> intent_params" where
  "create_params rt b =
     \<lparr>pi_amount = Math_round (ToNumber rt (amount b)),
      pi_currency = default_currency (currency b),
      pi_automatic_payment_methods_enabled = True,
      pi_metadata = (default_metadata (metadata b))(''integration_source'' \<mapsto> JStr ''qg3d-website'')\<rparr>"

text \<open>
  The handler. \<open>create\<close> is the gateway: \<open>Inr\<close> the payment intent it resolves to,
  \<open>Inl\<close> the message of the error it rejects with, which the \<^verbatim>\<open>catch\<close> block logs and
  answers with 500.
\<close>

definition create_payment_intent ::
  "js_runtime \<Rightarrow> (intent_params \<Rightarrow> string + payment_intent) \<Rightarrow> payment_body
     \<Rightarrow> response \<times> effect list" where
  "create_payment_intent rt create b =
     (if amount_rejected rt (amount b)
      then (res_status_json 400 [(''error'', JStr minimum_amount_message)], [])
      else
        (case create (create_params rt b) of
           Inr paymentIntent \<Rightarrow>
             (res_json [(''clientSecret'', client_secret paymentIntent),
                        (''paymentIntentId'', intent_id paymentIntent)],
              [PaymentIntentsCreate (create_params rt b)])
         | Inl message \<Rightarrow>
             (res_status_json 500
                [(''error'', JStr (''Erreur lors de la cr'' @ e_acute @ ''ation du paiement'')),
                 (''details'', JStr message)],
              [PaymentIntentsCreate (create_params rt b),
               ConsoleError [Val (JStr (''Erreur cr'' @ e_acute @ ''ation PaymentIntent:'')),
                             ErrorObject message]])))"

text \<open>The gateway calls among the effects of a handler.\<close>

fun gateway_calls :: "effect list \<Rightarrow> intent_params list" where
  "gateway_calls [] = []"
| "gateway_calls (PaymentIntentsCreate p # es) = p # gateway_calls es"
| "gateway_calls (e # es) = gateway_calls es"

section \<open>POST /webhook\<close>

text \<open>
  \<^verbatim>\<open>stripe.webhooks.constructEvent(req.body, sig, webhookSecret)\<close> belongs to the
  gateway's library: it checks the signature header against the secret and parses the
  payload, and throws otherwise. It is a parameter of the handler: \<open>Inr\<close> the event,
  \<open>Inl\<close> the message of the error thrown. The header and the secret may be missing.
  An event carries its type and the identifier of \<^verbatim>\<open>event.data.object\<close>.
\<close>

record webhook_event =
  event_type :: string
  data_object_id :: jsval

text \<open>The \<^verbatim>\<open>switch (event.type)\<close> of the handler: the log lines of the branch taken.\<close>

definition handle_event :: "webhook_event \<Rightarrow> effect list" where
  "handle_event event =
     (if event_type event = ''payment_intent.succeeded''
      then [ConsoleLog [Val (JStr (check_mark @ '' Paiement r'' @ e_acute @ ''ussi:'')),
                        Val (data_object_id event)]]
      else if event_type event = ''payment_intent.payment_failed''
      then [ConsoleLog [Val (JStr (cross_mark @ '' Paiement '' @ e_acute @ ''chou'' @ e_acute @ '':'')),
                        Val (data_object_id event)]]
      else [ConsoleLog [Val (JStr (capital_E_acute @ ''v'' @ e_acute @ ''nement non g'' @ e_acute
                                     @ ''r'' @ e_acute @ '': '' @ event_type event))]])"

definition webhook ::
  "('payload \<Rightarrow> string option \<Rightarrow> string option \<Rightarrow> string + webhook_event)
     \<Rightarrow> string option \<Rightarrow> 'payload \<Rightarrow> string option \<Rightarrow> response \<times> effect list" where
  "webhook constructEvent webhookSecret req_body sig =
     (case constructEvent req_body sig webhookSecret of
        Inl message \<Rightarrow>
          (res_status_send 400 (''Webhook Error: '' @ message),
           [ConsoleError [Val (JStr ''Webhook signature verification failed:''),
                          Val (JStr message)]])
      | Inr event \<Rightarrow> (res_json [(''received'', JBool True)], handle_event event))"

text \<open>The lines the event branches write go to \<^verbatim>\<open>console.log\<close>.\<close>

fun is_console_log :: "effect \<Rightarrow> bool" where
  "is_console_log (ConsoleLog args) = True"
| "is_console_log e = False"

subsection \<open>The body parsers in front of the handler\<close>

text \<open>
  \<^verbatim>\<open>app.use(express.json())\<close> is registered before every route, and the route adds
  \<^verbatim>\<open>express.raw({type: 'application/json'})\<close> in front of the handler. Both act on a
  request that has a body of type \<^verbatim>\<open>application/json\<close>, and a body parser leaves a
  request alone once its body has been parsed. So \<^verbatim>\<open>req.body\<close> is, when the handler
  runs, the raw bytes, the parsed value, or what a request no parser has read carries.
\<close>

datatype 'obj req_body = RawBody string | ParsedBody 'obj | NoBody

record http_request =
  json_content :: bool
  raw_bytes :: string
  stripe_signature :: "string option"

text \<open>
  \<open>parse\<close> is the JSON parser of \<^verbatim>\<open>express.json()\<close>: \<open>Inr\<close> the parsed value, \<open>Inl\<close>
  the message of the error, which the parser passes to the error handling middleware.
\<close>

definition express_json ::
  "(string \<Rightarrow> string + 'obj) \<Rightarrow> http_request \<Rightarrow> string + 'obj req_body" where
  "express_json parse req =
     (if json_content req
      then (case parse (raw_bytes req) of
              Inl message \<Rightarrow> Inl message
            | Inr obj \<Rightarrow> Inr (ParsedBody obj))
      else Inr NoBody)"

definition express_raw :: "http_request \<Rightarrow> 'obj req_body \<Rightarrow> 'obj req_body" where
  "express_raw req b =
     (case b of
        NoBody \<Rightarrow> if json_content req then RawBody (raw_bytes req) else NoBody
      | parsed \<Rightarrow> parsed)"

text \<open>
  The error handling middleware at the end of \<^verbatim>\<open>server.js\<close>; \<open>NODE_ENV\<close> is the
  variable of the environment.
\<close>

definition error_middleware :: "string option \<Rightarrow> string \<Rightarrow> response \<times> effect list" where
  "error_middleware NODE_ENV message =
     (res_status_json 500
        [(''error'', JStr ''Erreur interne du serveur''),
         (''details'', if NODE_ENV = Some ''development'' then JStr message else JUndefined)],
      [ConsoleError [Val (JStr ''Erreur serveur:''), ErrorObject message]])"

text \<open>A request to \<^verbatim>\<open>POST /webhook\<close>, through the parsers and the handler.\<close>

definition webhook_route ::
  "(string \<Rightarrow> string + 'obj)
     \<Rightarrow> ('obj req_body \<Rightarrow> string option \<Rightarrow> string option \<Rightarrow> string + webhook_event)
     \<Rightarrow> string option \<Rightarrow> string option \<Rightarrow> http_request \<Rightarrow> response \<times> effect list" where
  "webhook_route parse constructEvent NODE_ENV webhookSecret req =
     (case express_json parse req of
        Inl message \<Rightarrow> error_middleware NODE_ENV message
      | Inr b \<Rightarrow>
          webhook constructEvent webhookSecret (express_raw req b) (stripe_signature req))"

section \<open>POST /send-order-emails\<close>

text \<open>
  The order of the request body. An item is a JSON object, read by property name: a
  property it does not have reads as \<^verbatim>\<open>undefined\<close>. The items are an array, the
  shipping address an object and the total a number, as \<^verbatim>\<open>items.map\<close>, the property
  reads and \<^verbatim>\<open>total.toFixed\<close> need them to be.
\<close>

type_synonym js_object = "string \<rightharpoonup> jsval"

definition get_prop :: "js_object \<Rightarrow> string \<Rightarrow> jsval" where
  "get_prop obj k = (case obj k of None \<Rightarrow> JUndefined | Some v \<Rightarrow> v)"

record shipping_address =
  firstName :: jsval
  lastName :: jsval
  street :: jsval
  zip :: jsval
  city :: jsval
  country :: jsval
  phone :: jsval

record order_data =
  orderNumber :: jsval
  customerEmail :: jsval
  items :: "js_object list"
  shippingAddress :: shipping_address
  total :: jsnum
  paymentId :: jsval
  orderNotes :: jsval

record process_env =
  FRONTEND_URL :: "string option"

text \<open>\<^verbatim>\<open>process.env.FRONTEND_URL || 'http://localhost:8000'\<close>: the empty string is falsy.\<close>

definition frontend_url :: "process_env \<Rightarrow> string" where
  "frontend_url env =
     (case FRONTEND_URL env of
        None \<Rightarrow> ''http://localhost:8000''
      | Some url \<Rightarrow> if url = [] then ''http://localhost:8000'' else url)"

text \<open>\<^verbatim>\<open>n.toFixed(2)\<close>.\<close>

fun Number_toFixed2 :: "js_runtime \<Rightarrow> jsnum \<Rightarrow> string" where
  "Number_toFixed2 rt NaN = ''NaN''"
| "Number_toFixed2 rt NegInf = ''-Infinity''"
| "Number_toFixed2 rt PosInf = ''Infinity''"
| "Number_toFixed2 rt (Fin r) = toFixed2 rt r"

subsection \<open>String.prototype.trim\<close>

text \<open>
  \<^verbatim>\<open>trim\<close> removes white space and line terminators from both ends: the ASCII ones
  (tab, line feed, vertical tab, form feed, carriage return, space), U+00A0, U+1680,
  U+2000 to U+200A, U+2028, U+2029, U+202F, U+205F, U+3000 and U+FEFF, here in UTF-8.
\<close>

definition ws1 :: "char \<Rightarrow> bool" where
  "ws1 a = (a \<in> set [CHR 0x09, CHR 0x0A, CHR 0x0B, CHR 0x0C, CHR 0x0D, CHR 0x20])"

definition ws2 :: "char \<Rightarrow> char \<Rightarrow> bool" where
  "ws2 a b = (a = CHR 0xC2 \<and> b = CHR 0xA0)"

definition ws3 :: "char \<Rightarrow> char \<Rightarrow> char \<Rightarrow> bool" where
  "ws3 a b c =
     ((a = CHR 0xE1 \<and> b = CHR 0x9A \<and> c = CHR 0x80) \<or>
      (a = CHR 0xE2 \<and> b = CHR 0x80 \<and>
         c \<in> set [CHR 0x80, CHR 0x81, CHR 0x82, CHR 0x83, CHR 0x84, CHR 0x85, CHR 0x86,
                  CHR 0x87, CHR 0x88, CHR 0x89, CHR 0x8A, CHR 0xA8, CHR 0xA9, CHR 0xAF]) \<or>
      (a = CHR 0xE2 \<and> b = CHR 0x81 \<and> c = CHR 0x9F) \<or>
      (a = CHR 0xE3 \<and> b = CHR 0x80 \<and> c = CHR 0x80) \<or>
      (a = CHR 0xEF \<and> b = CHR 0xBB \<and> c = CHR 0xBF))"

fun trimStart :: "string \<Rightarrow> string" where
  "trimStart (a # b # c # s) =
     (if ws1 a then trimStart (b # c # s)
      else if ws2 a b then trimStart (c # s)
      else if ws3 a b c then trimStart s
      else a # b # c # s)"
| "trimStart [a, b] =
     (if ws1 a then trimStart [b] else if ws2 a b then [] else [a, b])"
| "trimStart [a] = (if ws1 a then [] else [a])"
| "trimStart [] = []"

text \<open>The same from the end, on the reversed string.\<close>

fun trimEnd_rev :: "string \<Rightarrow> string" where
  "trimEnd_rev (c # b # a # s) =
     (if ws1 c then trimEnd_rev (b # a # s)
      else if ws2 b c then trimEnd_rev (a # s)
      else if ws3 a b c then trimEnd_rev s
      else c # b # a # s)"
| "trimEnd_rev [b, a] =
     (if ws1 b then trimEnd_rev [a] else if ws2 a b then [] else [b, a])"
| "trimEnd_rev [a] = (if ws1 a then [] else [a])"
| "trimEnd_rev [] = []"

definition trim :: "string \<Rightarrow> string" where
  "trim s = rev (trimEnd_rev (rev (trimStart s)))"

subsection \<open>The item list and the shipping address\<close>

text \<open>
  \<^verbatim>\<open>orderData.items.map(item => `${item.quantity}x ${item.name} - ${item.price}EUR`).join('\n')\<close>,
  where EUR stands for the euro sign of the source.
\<close>

definition item_line :: "js_runtime \<Rightarrow> js_object \<Rightarrow> string" where
  "item_line rt item =
     ToString rt (get_prop item ''quantity'') @ ''x '' @ ToString rt (get_prop item ''name'') @ '' - ''
       @ ToString rt (get_prop item ''price'') @ euro"

fun join :: "string \<Rightarrow> string list \<Rightarrow> string" where
  "join sep [] = []"
| "join sep [x] = x"
| "join sep (x # y # ys) = x @ sep @ join sep (y # ys)"

definition itemsList :: "js_runtime \<Rightarrow> js_object list \<Rightarrow> string" where
  "itemsList rt its = join ''\<newline>'' (map (item_line rt) its)"

definition shippingAddress_text :: "js_runtime \<Rightarrow> shipping_address \<Rightarrow> string" where
  "shippingAddress_text rt a =
     trim (''\<newline>'' @
       ToString rt (firstName a) @ '' '' @ ToString rt (lastName a) @ ''\<newline>'' @
       ToString rt (street a) @ ''\<newline>'' @
       ToString rt (zip a) @ '' '' @ ToString rt (city a) @ ''\<newline>'' @
       ToString rt (country a) @ ''\<newline>'' @
       ''T'' @ e_acute @ ''l'' @ e_acute @ ''phone: '' @ ToString rt (phone a) @ ''\<newline>'' @
       ''        '')"

subsection \<open>The message to the customer\<close>

text \<open>
  The \<^verbatim>\<open>html\<close> template of \<^verbatim>\<open>customerEmail\<close>: \<open>customer_html_k\<close> is its fixed text
  before the \<open>k\<close>-th interpolation (the last one, the text after the last interpolation),
  one source line per row.
\<close>

definition customer_html_1 :: string where
  \<open>customer_html_1 =
     ''\<newline>'' @
     ''<!DOCTYPE html>\<newline>'' @
     ''<html>\<newline>'' @
     ''<head>\<newline>'' @
     ''    <meta charset="UTF-8">\<newline>'' @
     ''    <style>\<newline>'' @
     ''        body { font-family: Arial, sans-serif; line-height: 1.6; color: #333; }\<newline>'' @
     ''        .container { max-width: 600px; margin: 0 auto; padding: 20px; }\<newline>'' @
     ''        .header { background-color: #2c2c2c; color: white; padding: 20px; text-align: center; }\<newline>'' @
     ''        .content { padding: 20px; background-color: #f5f5f5; }\<newline>'' @
     ''        .order-details { background: white; padding: 15px; margin: 20px 0; border-left: 4px solid #ff5757; }\<newline>'' @
     ''        .footer { text-align: center; padding: 20px; font-size: 12px; color: #666; }\<newline>'' @
     ''        .button { display: inline-block; padding: 12px 30px; background-color: #ff5757; color: white; text-decoration: none; border-radius: 5px; margin: 20px 0; }\<newline>'' @
     ''    </style>\<newline>'' @
     ''</head>\<newline>'' @
     ''<body>\<newline>'' @
     ''    <div class="container">\<newline>'' @
     ''        <div class="header">\<newline>'' @
     ''            <h1>QG3D</h1>\<newline>'' @
     ''            <p>Merci pour votre commande !</p>\<newline>'' @
     ''        </div>\<newline>'' @
     ''        \<newline>'' @
     ''        <div class="content">\<newline>'' @
     ''            <h2>Bonjour ''\<close>

definition customer_html_2 :: string where
  \<open>customer_html_2 =
     '',</h2>\<newline>'' @
     ''            <p>Nous avons bien re'' @ c_cedilla @ ''u votre commande et nous vous remercions de votre confiance.</p>\<newline>'' @
     ''            \<newline>'' @
     ''            <div class="order-details">\<newline>'' @
     ''                <h3>D'' @ e_acute @ ''tails de la commande</h3>\<newline>'' @
     ''                <p><strong>N'' @ degree_sign @ '' de commande :</strong> ''\<close>

definition customer_html_3 :: string where
  \<open>customer_html_3 =
     ''</p>\<newline>'' @
     ''                <p><strong>Date :</strong> ''\<close>

definition customer_html_4 :: string where
  \<open>customer_html_4 =
     ''</p>\<newline>'' @
     ''                <p><strong>Montant total :</strong> ''\<close>

definition customer_html_5 :: string where
  \<open>customer_html_5 =
     euro @ ''</p>\<newline>'' @
     ''                \<newline>'' @
     ''                <h4>Articles command'' @ e_acute @ ''s :</h4>\<newline>'' @
     ''                <pre>''\<close>

definition customer_html_6 :: string where
  \<open>customer_html_6 =
     ''</pre>\<newline>'' @
     ''                \<newline>'' @
     ''                <h4>Adresse de livraison :</h4>\<newline>'' @
     ''                <pre>''\<close>

definition customer_html_7 :: string where
  \<open>customer_html_7 =
     ''</pre>\<newline>'' @
     ''            </div>\<newline>'' @
     ''            \<newline>'' @
     ''            <p>Nous pr'' @ e_acute @ ''parons votre commande avec soin. Vous recevrez un email de confirmation d'exp'' @ e_acute @ ''dition d'' @ e_grave @ ''s que votre colis sera en route.</p>\<newline>'' @
     ''            \<newline>'' @
     ''            <a href="''\<close>

definition customer_html_8 :: string where
  \<open>customer_html_8 =
     ''/profile.html" class="button">Suivre ma commande</a>\<newline>'' @
     ''        </div>\<newline>'' @
     ''        \<newline>'' @
     ''        <div class="footer">\<newline>'' @
     ''            <p>'' @ copyright_sign @ '' 2024 QG3D - Tous droits r'' @ e_acute @ ''serv'' @ e_acute @ ''s</p>\<newline>'' @
     ''            <p>Pour toute question, contactez-nous '' @ a_grave @ '' qg3dprint@gmail.com</p>\<newline>'' @
     ''        </div>\<newline>'' @
     ''    </div>\<newline>'' @
     ''</body>\<newline>'' @
     ''</html>\<newline>'' @
     ''            ''\<close>

text \<open>
  \<open>date\<close> is \<^verbatim>\<open>new Date().toLocaleDateString('fr-FR')\<close> at the time of the request.
\<close>

definition customerEmail_html ::
  "js_runtime \<Rightarrow> process_env \<Rightarrow> string \<Rightarrow> order_data \<Rightarrow> string" where
  "customerEmail_html rt env date orderData =
     customer_html_1 @ ToString rt (firstName (shippingAddress orderData)) @
     customer_html_2 @ ToString rt (orderNumber orderData) @
     customer_html_3 @ date @
     customer_html_4 @ Number_toFixed2 rt (total orderData) @
     customer_html_5 @ itemsList rt (items orderData) @
     customer_html_6 @ shippingAddress_text rt (shippingAddress orderData) @
     customer_html_7 @ frontend_url env @
     customer_html_8"

definition compose_customerEmail ::
  "js_runtime \<Rightarrow> process_env \<Rightarrow> string \<Rightarrow> order_data \<Rightarrow> email" where
  "compose_customerEmail rt env date orderData =
     \<lparr>mail_from = ''\"QG3D\" <qg3dprint@gmail.com>'',
      mail_to = customerEmail orderData,
      subject = ''Confirmation de commande #'' @ ToString rt (orderNumber orderData),
      html = customerEmail_html rt env date orderData\<rparr>"

subsection \<open>The message to the administrator\<close>

text \<open>The \<^verbatim>\<open>html\<close> template of \<^verbatim>\<open>adminEmail\<close>, cut in the same way.\<close>

definition admin_html_1 :: string where
  \<open>admin_html_1 =
     ''\<newline>'' @
     ''<!DOCTYPE html>\<newline>'' @
     ''<html>\<newline>'' @
     ''<head>\<newline>'' @
     ''    <meta charset="UTF-8">\<newline>'' @
     ''    <style>\<newline>'' @
     ''        body { font-family: Arial, sans-serif; line-height: 1.6; color: #333; }\<newline>'' @
     ''        .container { max-width: 600px; margin: 0 auto; padding: 20px; }\<newline>'' @
     ''        .header { background-color: #2c2c2c; color: white; padding: 20px; }\<newline>'' @
     ''        .alert { background-color: #ff5757; color: white; padding: 15px; margin: 10px 0; border-radius: 5px; }\<newline>'' @
     ''        .details { background: #f5f5f5; padding: 15px; margin: 10px 0; }\<newline>'' @
     ''    </style>\<newline>'' @
     ''</head>\<newline>'' @
     ''<body>\<newline>'' @
     ''    <div class="container">\<newline>'' @
     ''        <div class="header">\<newline>'' @
     ''            <h1>'' @ bell @ '' Nouvelle Commande QG3D</h1>\<newline>'' @
     ''        </div>\<newline>'' @
     ''        \<newline>'' @
     ''        <div class="alert">\<newline>'' @
     ''            <strong>Commande n'' @ degree_sign\<close>

definition admin_html_2 :: string where
  \<open>admin_html_2 =
     ''</strong> - ''\<close>

definition admin_html_3 :: string where
  \<open>admin_html_3 =
     euro @ ''\<newline>'' @
     ''        </div>\<newline>'' @
     ''        \<newline>'' @
     ''        <div class="details">\<newline>'' @
     ''            <h3>Informations Client</h3>\<newline>'' @
     ''            <p><strong>Nom :</strong> ''\<close>

definition admin_html_4 :: string where
  \<open>admin_html_4 =
     '' ''\<close>

definition admin_html_5 :: string where
  \<open>admin_html_5 =
     ''</p>\<newline>'' @
     ''            <p><strong>Email :</strong> ''\<close>

definition admin_html_6 :: string where
  \<open>admin_html_6 =
     ''</p>\<newline>'' @
     ''            <p><strong>T'' @ e_acute @ ''l'' @ e_acute @ ''phone :</strong> ''\<close>

definition admin_html_7 :: string where
  \<open>admin_html_7 =
     ''</p>\<newline>'' @
     ''            \<newline>'' @
     ''            <h3>Articles command'' @ e_acute @ ''s</h3>\<newline>'' @
     ''            <pre>''\<close>

definition admin_html_8 :: string where
  \<open>admin_html_8 =
     ''</pre>\<newline>'' @
     ''            \<newline>'' @
     ''            <h3>Adresse de livraison</h3>\<newline>'' @
     ''            <pre>''\<close>

definition admin_html_9 :: string where
  \<open>admin_html_9 =
     ''</pre>\<newline>'' @
     ''            \<newline>'' @
     ''            <h3>Informations de paiement</h3>\<newline>'' @
     ''            <p><strong>ID Paiement Stripe :</strong> ''\<close>

definition admin_html_10 :: string where
  \<open>admin_html_10 =
     ''</p>\<newline>'' @
     ''            <p><strong>Montant :</strong> ''\<close>

definition admin_html_11 :: string where
  \<open>admin_html_11 =
     euro @ ''</p>\<newline>'' @
     ''            \<newline>'' @
     ''            ''\<close>

definition admin_html_12 :: string where
  \<open>admin_html_12 =
     ''\<newline>'' @
     ''        </div>\<newline>'' @
     ''        \<newline>'' @
     ''        <p><a href="''\<close>

definition admin_html_13 :: string where
  \<open>admin_html_13 =
     ''/admin.html">Acc'' @ e_acute @ ''der '' @ a_grave @ '' l'interface admin</a></p>\<newline>'' @
     ''    </div>\<newline>'' @
     ''</body>\<newline>'' @
     ''</html>\<newline>'' @
     ''            ''\<close>

text \<open>\<^verbatim>\<open>${orderData.paymentId || 'N/A'}\<close>\<close>

definition payment_id_text :: "js_runtime \<Rightarrow> jsval \<Rightarrow> string" where
  "payment_id_text rt pid = ToString rt (js_or pid (JStr ''N/A''))"

text \<open>\<^verbatim>\<open>${orderData.orderNotes ? `<h3>Notes</h3><p>${orderData.orderNotes}</p>` : ''}\<close>\<close>

definition notes_section :: "js_runtime \<Rightarrow> jsval \<Rightarrow> string" where
  "notes_section rt notes =
     (if ToBoolean notes then ''<h3>Notes</h3><p>'' @ ToString rt notes @ ''</p>'' else [])"

definition adminEmail_html :: "js_runtime \<Rightarrow> process_env \<Rightarrow> order_data \<Rightarrow> string" where
  "adminEmail_html rt env orderData =
     admin_html_1 @ ToString rt (orderNumber orderData) @
     admin_html_2 @ Number_toFixed2 rt (total orderData) @
     admin_html_3 @ ToString rt (firstName (shippingAddress orderData)) @
     admin_html_4 @ ToString rt (lastName (shippingAddress orderData)) @
     admin_html_5 @ ToString rt (customerEmail orderData) @
     admin_html_6 @ ToString rt (phone (shippingAddress orderData)) @
     admin_html_7 @ itemsList rt (items orderData) @
     admin_html_8 @ shippingAddress_text rt (shippingAddress orderData) @
     admin_html_9 @ payment_id_text rt (paymentId orderData) @
     admin_html_10 @ Number_toFixed2 rt (total orderData) @
     admin_html_11 @ notes_section rt (orderNotes orderData) @
     admin_html_12 @ frontend_url env @
     admin_html_13"

definition compose_adminEmail :: "js_runtime \<Rightarrow> process_env \<Rightarrow> order_data \<Rightarrow> email" where
  "compose_adminEmail rt env orderData =
     \<lparr>mail_from = ''\"QG3D Notifications\" <qg3dprint@gmail.com>'',
      mail_to = JStr ''qg3dprint@gmail.com'',
      subject = bell @ '' Nouvelle commande #'' @ ToString rt (orderNumber orderData),
      html = adminEmail_html rt env orderData\<rparr>"

subsection \<open>Sending both messages\<close>

text \<open>
  \<^verbatim>\<open>Promise.allSettled\<close> waits for both promises and never rejects: each result has
  the status of its own promise. \<open>sendMail\<close> gives the status the promise of a message
  settles with.
\<close>

datatype settled = fulfilled | rejected

definition sent_text :: "bool \<Rightarrow> jsval" where
  "sent_text ok = JStr (if ok then ''Envoy'' @ e_acute
                        else capital_E_acute @ ''chou'' @ e_acute)"

text \<open>
  The handler; \<open>orderData\<close> is \<open>None\<close> when the body has no (truthy) \<^verbatim>\<open>orderData\<close>.
\<close>

definition send_order_emails ::
  "js_runtime \<Rightarrow> process_env \<Rightarrow> string \<Rightarrow> (email \<Rightarrow> settled) \<Rightarrow> order_data option
     \<Rightarrow> response \<times> effect list" where
  "send_order_emails rt env date sendMail body_orderData =
     (case body_orderData of
        None \<Rightarrow>
          (res_status_json 400
             [(''error'', JStr (''Donn'' @ e_acute @ ''es de commande manquantes''))], [])
      | Some orderData \<Rightarrow>
          (let customer = compose_customerEmail rt env date orderData;
               admin = compose_adminEmail rt env orderData;
               results = [sendMail customer, sendMail admin];
               customerSuccess = (results ! 0 = fulfilled);
               adminSuccess = (results ! 1 = fulfilled)
           in (res_json [(''success'', JBool True),
                         (''customerEmailSent'', JBool customerSuccess),
                         (''adminEmailSent'', JBool adminSuccess)],
               [ConsoleLog [Val (JStr (e_mail_symbol @ '' Envoi des emails pour commande:'')),
                            Val (orderNumber orderData)],
                SendMail customer,
                SendMail admin,
                ConsoleLog [Val (JStr (check_mark @ '' Email client:'')), Val (sent_text customerSuccess)],
                ConsoleLog [Val (JStr (check_mark @ '' Email admin:'')), Val (sent_text adminSuccess)]])))"

text \<open>The messages handed to the transport among the effects of a handler.\<close>

fun sent_mails :: "effect list \<Rightarrow> email list" where
  "sent_mails [] = []"
| "sent_mails (SendMail m # es) = m # sent_mails es"
| "sent_mails (e # es) = sent_mails es"

text \<open>
  The lines of a text, as \<^verbatim>\<open>split('\n')\<close> cuts it: used to count the lines of the
  item list.
\<close>

fun split_lines :: "string \<Rightarrow> string list" where
  "split_lines [] = [[]]"
| "split_lines (c # cs) =
     (if c = CHR 0x0A then [] # split_lines cs
      else (case split_lines cs of [] \<Rightarrow> [[c]] | l # ls \<Rightarrow> (c # l) # ls))"

section \<open>A runtime, a gateway and a transport to evaluate the handlers\<close>

text \<open>
  The theorems below hold for every runtime, gateway and transport. To evaluate the
  handlers on concrete requests, one of each is fixed here. The runtime prints integers
  in decimal and \<open>toFixed(2)\<close> as ECMAScript does for numbers below \<open>10^21\<close> in magnitude,
  and reads a string of ASCII digits as the number it writes; it is not meant to agree
  with ECMAScript elsewhere (fractions, exponents, signs and spaces in strings).
\<close>

definition digit :: "nat \<Rightarrow> char" where
  "digit n = ''0123456789'' ! n"

fun decimal :: "nat \<Rightarrow> string" where
  "decimal n = (if n < 10 then [digit n] else decimal (n div 10) @ [digit (n mod 10)])"

declare decimal.simps [simp del]

definition sample_toFixed2 :: "real \<Rightarrow> string" where
  "sample_toFixed2 r =
     (let n = nat \<lfloor>\<bar>r\<bar> * 100 + 1 / 2\<rfloor>
      in (if r < 0 then ''-'' else []) @ decimal (n div 100) @ ''.''
           @ [digit (n mod 100 div 10), digit (n mod 10)])"

definition sample_NumberToString :: "real \<Rightarrow> string" where
  "sample_NumberToString r = (if r < 0 then ''-'' else []) @ decimal (nat \<lfloor>\<bar>r\<bar>\<rfloor>)"

definition sample_StringToNumber :: "string \<Rightarrow> jsnum" where
  "sample_StringToNumber s =
     (if list_all (\<lambda>c. c \<in> set ''0123456789'') s
      then Fin (of_nat (foldl (\<lambda>n c. 10 * n + (of_char c - 48)) 0 s))
      else NaN)"

definition sample_runtime :: js_runtime where
  "sample_runtime =
     \<lparr>StringToNumber = sample_StringToNumber,
      NumberToString = sample_NumberToString,
      toFixed2 = sample_toFixed2\<rparr>"

text \<open>A gateway that creates every intent it is asked for.\<close>

definition sample_create :: "intent_params \<Rightarrow> string + payment_intent" where
  "sample_create p = Inr \<lparr>client_secret = JStr ''pi_1_secret_2'', intent_id = JStr ''pi_1''\<rparr>"

text \<open>
  A stand-in for the gateway's verification as this server calls it. The payload it is
  handed is never the raw body (see \<open>handler_never_sees_raw_body\<close> below), so it
  refuses every call: for want of a signature header or of a secret, and otherwise
  because no signature matches.
\<close>

definition sample_constructEvent ::
  "'payload \<Rightarrow> string option \<Rightarrow> string option \<Rightarrow> string + webhook_event" where
  "sample_constructEvent payload sig secret =
     (case (sig, secret) of
        (Some s, Some k) \<Rightarrow>
          Inl ''No signatures found matching the expected signature for payload.''
      | _ \<Rightarrow> Inl ''No stripe-signature header value was provided.'')"

text \<open>
  The body of an event of the gateway, a stand-in for the JSON parser that reads this one
  text as the event it writes (and is not meant to agree with a JSON parser on any other),
  and a request that delivers the event.
\<close>

definition sample_event_json :: string where
  \<open>sample_event_json =
     ''{"type":"payment_intent.succeeded","data":{"object":{"id":"pi_1"}}}''\<close>

definition sample_json_parse :: "string \<Rightarrow> string + webhook_event" where
  "sample_json_parse bytes =
     (if bytes = sample_event_json
      then Inr \<lparr>event_type = ''payment_intent.succeeded'', data_object_id = JStr ''pi_1''\<rparr>
      else Inl ''Unexpected token'')"

definition sample_event_request :: http_request where
  "sample_event_request =
     \<lparr>json_content = True, raw_bytes = sample_event_json,
      stripe_signature = Some ''t=1762077600,v1=5257a869e7ecebeda32affa62cdca3fa51cad7e77a0e56ff536d0ce8e108d8bd''\<rparr>"

text \<open>A transport that delivers to the administrator's address only.\<close>

definition sample_sendMail :: "email \<Rightarrow> settled" where
  "sample_sendMail m = (if mail_to m = JStr ''qg3dprint@gmail.com'' then fulfilled else rejected)"

definition sample_address :: shipping_address where
  "sample_address =
     \<lparr>firstName = JStr ''Ada'', lastName = JStr ''Martin'', street = JStr ''1 rue de la Paix'',
      zip = JStr ''75002'', city = JStr ''Paris'', country = JStr ''France'',
      phone = JStr ''0102030405''\<rparr>"

definition sample_order :: order_data where
  "sample_order =
     \<lparr>orderNumber = JStr ''QG-1001'', customerEmail = JStr ''ada@example.org'',
      items = [[''name'' \<mapsto> JStr ''Vase'', ''quantity'' \<mapsto> JNum (Fin 2), ''price'' \<mapsto> JNum (Fin 15)],
               [''name'' \<mapsto> JStr ''Support'', ''quantity'' \<mapsto> JNum (Fin 1), ''price'' \<mapsto> JNum (Fin 9)]],
      shippingAddress = sample_address, total = Fin 39,
      paymentId = JStr ''pi_1'', orderNotes = JStr ''Sonner deux fois''\<rparr>"

definition sample_env :: process_env where
  "sample_env = \<lparr>FRONTEND_URL = None\<rparr>"

definition sample_body :: payment_body where
  "sample_body =
     \<lparr>amount = JNum (Fin 1999), currency = JUndefined,
      metadata = Some [''orderId'' \<mapsto> JStr ''QG-1001'', ''integration_source'' \<mapsto> JStr ''other'']\<rparr>"

text \<open>An item with the field names of the specification's Order data model.\<close>

definition spec_item :: js_object where
  "spec_item =
     [''name'' \<mapsto> JStr ''Vase'', ''quantity'' \<mapsto> JNum (Fin 2), ''unitPrice'' \<mapsto> JNum (Fin 15)]"

section \<open>Properties of POST /create-payment-intent\<close>

lemma rejected_no_effect:
  "amount_rejected rt (amount b) \<Longrightarrow>
     create_payment_intent rt create b =
       (\<lparr>status = 400, body = Json [(''error'', JStr minimum_amount_message)]\<rparr>, [])"
  by (simp add: create_payment_intent_def res_status_json_def)

lemma accepted_calls_gateway:
  "\<not> amount_rejected rt (amount b) \<Longrightarrow>
     gateway_calls (snd (create_payment_intent rt create b)) = [create_params rt b]"
  by (simp add: create_payment_intent_def split: sum.split)

lemma accepted_call_in_effects:
  "\<not> amount_rejected rt (amount b) \<Longrightarrow>
     PaymentIntentsCreate (create_params rt b) \<in> set (snd (create_payment_intent rt create b))"
  by (simp add: create_payment_intent_def split: sum.split)

lemma gateway_call_is_create_params:
  "PaymentIntentsCreate p \<in> set (snd (create_payment_intent rt create b)) \<Longrightarrow>
     p = create_params rt b"
  by (auto simp add: create_payment_intent_def split: if_splits sum.splits)

text \<open>
  Claim C2, as the specification states it: a present amount is accepted exactly when its
  rounding is at least 50. The handler compares the amount before rounding it: 49.5
  rounds to 50 and is refused with 400, and the gateway is not called.
\<close>

theorem rounded_minimum_counterexample:
  "Math_round (Fin 49.5) = Fin 50
   \<and> \<not> js_less (Math_round (Fin 49.5)) (Fin 50)
   \<and> create_payment_intent sample_runtime sample_create
        \<lparr>amount = JNum (Fin 49.5), currency = JUndefined, metadata = None\<rparr> =
      (\<lparr>status = 400, body = Json [(''error'', JStr minimum_amount_message)]\<rparr>, [])"
  by (simp add: create_payment_intent_def amount_rejected_def res_status_json_def)

text \<open>
  Claim C2, amended: a request whose amount is a finite number \<open>r\<close> is accepted exactly
  when \<open>r\<close> itself, before rounding, is at least 50. When it is accepted the gateway is
  called once, with the amount rounded to the nearest integer (a tie going up); when it is
  not, the answer is 400 and the gateway is not called.
\<close>

theorem amount_validated_then_rounded:
  assumes "amount b = JNum (Fin r)"
  shows "(50 \<le> r \<longrightarrow>
            gateway_calls (snd (create_payment_intent rt create b)) = [create_params rt b]
            \<and> pi_amount (create_params rt b) = Fin (of_int \<lfloor>r + 1 / 2\<rfloor>))
         \<and> (r < 50 \<longrightarrow>
            create_payment_intent rt create b =
              (\<lparr>status = 400, body = Json [(''error'', JStr minimum_amount_message)]\<rparr>, []))"
proof -
  have "amount_rejected rt (amount b) = (r < 50)"
    using assms by (auto simp add: amount_rejected_def)
  then show ?thesis
    using assms by (simp add: accepted_calls_gateway rejected_no_effect create_params_def)
qed

theorem amount_validated_then_rounded_witness:
  "gateway_calls (snd (create_payment_intent sample_runtime sample_create
       \<lparr>amount = JNum (Fin 1999.5), currency = JUndefined, metadata = None\<rparr>)) =
     [create_params sample_runtime
        \<lparr>amount = JNum (Fin 1999.5), currency = JUndefined, metadata = None\<rparr>]
   \<and> pi_amount (create_params sample_runtime
        \<lparr>amount = JNum (Fin 1999.5), currency = JUndefined, metadata = None\<rparr>) = Fin 2000
   \<and> create_payment_intent sample_runtime sample_create
        \<lparr>amount = JNum (Fin 49.5), currency = JUndefined, metadata = None\<rparr> =
      (\<lparr>status = 400, body = Json [(''error'', JStr minimum_amount_message)]\<rparr>, [])"
  using
    amount_validated_then_rounded
      [of "\<lparr>amount = JNum (Fin 1999.5), currency = JUndefined, metadata = None\<rparr>" "1999.5"
          sample_runtime sample_create]
    amount_validated_then_rounded
      [of "\<lparr>amount = JNum (Fin 49.5), currency = JUndefined, metadata = None\<rparr>" "49.5"
          sample_runtime sample_create]
  by simp

text \<open>
  Claim C3: when the amount is absent, or its numeric value is strictly below 50 (a
  number below 50, or a value that JavaScript converts to one), the handler answers 400
  with the message that names the minimum amount, and does nothing else: the gateway is
  not called.
\<close>

theorem invalid_amount_rejected:
  assumes "amount b = JUndefined \<or> js_less (ToNumber rt (amount b)) (Fin 50)"
  shows "create_payment_intent rt create b =
           (\<lparr>status = 400,
              body = Json [(''error'', JStr (''Le montant minimum est de 0.50'' @ euro))]\<rparr>, [])
         \<and> gateway_calls (snd (create_payment_intent rt create b)) = []"
proof -
  from assms have "amount_rejected rt (amount b)"
    by (auto simp add: amount_rejected_def)
  then show ?thesis
    by (simp add: rejected_no_effect minimum_amount_message_def)
qed

theorem invalid_amount_rejected_witness:
  "create_payment_intent sample_runtime sample_create
     \<lparr>amount = JNum (Fin 49), currency = JStr ''eur'', metadata = None\<rparr> =
     (\<lparr>status = 400,
        body = Json [(''error'', JStr (''Le montant minimum est de 0.50'' @ euro))]\<rparr>, [])
   \<and> create_payment_intent sample_runtime sample_create
     \<lparr>amount = JUndefined, currency = JStr ''eur'', metadata = None\<rparr> =
     (\<lparr>status = 400,
        body = Json [(''error'', JStr (''Le montant minimum est de 0.50'' @ euro))]\<rparr>, [])
   \<and> gateway_calls (snd (create_payment_intent sample_runtime sample_create
        \<lparr>amount = JStr ''49'', currency = JStr ''eur'', metadata = None\<rparr>)) = []"
  using
    invalid_amount_rejected
      [of "\<lparr>amount = JNum (Fin 49), currency = JStr ''eur'', metadata = None\<rparr>"
          sample_runtime sample_create]
    invalid_amount_rejected
      [of "\<lparr>amount = JUndefined, currency = JStr ''eur'', metadata = None\<rparr>"
          sample_runtime sample_create]
    invalid_amount_rejected
      [of "\<lparr>amount = JStr ''49'', currency = JStr ''eur'', metadata = None\<rparr>"
          sample_runtime sample_create]
  by (simp add: sample_runtime_def sample_StringToNumber_def)

text \<open>
  Claim C6: whenever the gateway is called for a request that supplies a metadata
  mapping, the metadata it receives is that mapping with \<open>integration_source\<close> bound to
  \<open>qg3d-website\<close>; every other key keeps the value the caller gave it, and no other key
  appears.
\<close>

theorem metadata_forwarded_with_tag:
  assumes "metadata b = Some m"
    and "PaymentIntentsCreate p \<in> set (snd (create_payment_intent rt create b))"
  shows "pi_metadata p = m(''integration_source'' \<mapsto> JStr ''qg3d-website'')
         \<and> (\<forall>k. k \<noteq> ''integration_source'' \<longrightarrow> pi_metadata p k = m k)"
proof -
  from assms(2) have "p = create_params rt b"
    by (rule gateway_call_is_create_params)
  with assms(1) show ?thesis
    by (simp add: create_params_def default_metadata_def)
qed

theorem metadata_forwarded_with_tag_witness:
  "pi_metadata (create_params sample_runtime sample_body) ''orderId'' = Some (JStr ''QG-1001'')
   \<and> pi_metadata (create_params sample_runtime sample_body) ''integration_source'' =
       Some (JStr ''qg3d-website'')"
proof -
  have called: "PaymentIntentsCreate (create_params sample_runtime sample_body)
      \<in> set (snd (create_payment_intent sample_runtime sample_create sample_body))"
    by (rule accepted_call_in_effects) (simp add: amount_rejected_def sample_body_def)
  have "metadata sample_body =
      Some [''orderId'' \<mapsto> JStr ''QG-1001'', ''integration_source'' \<mapsto> JStr ''other'']"
    by (simp add: sample_body_def)
  from metadata_forwarded_with_tag [OF this called] show ?thesis
    by simp
qed

text \<open>
  Claim C10: whenever the gateway is called, the currency it receives is \<open>eur\<close> when the
  request has no currency field, and the currency of the request otherwise.
\<close>

theorem currency_defaults_to_eur:
  assumes "PaymentIntentsCreate p \<in> set (snd (create_payment_intent rt create b))"
  shows "pi_currency p = (if currency b = JUndefined then JStr ''eur'' else currency b)"
proof -
  from assms have "p = create_params rt b"
    by (rule gateway_call_is_create_params)
  then show ?thesis
    by (simp add: create_params_def default_currency_def)
qed

theorem currency_defaults_to_eur_witness:
  "pi_currency (create_params sample_runtime sample_body) = JStr ''eur''
   \<and> pi_currency (create_params sample_runtime (sample_body\<lparr>currency := JStr ''usd''\<rparr>)) =
       JStr ''usd''"
proof -
  have c1: "PaymentIntentsCreate (create_params sample_runtime sample_body)
      \<in> set (snd (create_payment_intent sample_runtime sample_create sample_body))"
    by (rule accepted_call_in_effects) (simp add: amount_rejected_def sample_body_def)
  have c2: "PaymentIntentsCreate
        (create_params sample_runtime (sample_body\<lparr>currency := JStr ''usd''\<rparr>))
      \<in> set (snd (create_payment_intent sample_runtime sample_create
                     (sample_body\<lparr>currency := JStr ''usd''\<rparr>)))"
    by (rule accepted_call_in_effects) (simp add: amount_rejected_def sample_body_def)
  from currency_defaults_to_eur [OF c1] currency_defaults_to_eur [OF c2] show ?thesis
    by (simp add: sample_body_def)
qed

section \<open>Properties of POST /webhook\<close>



text \<open>
  The switch of the handler does what the specification asks of the dispatcher, for an
  event that reaches it: one line for a succeeded payment, and the line of the unhandled
  type for a type it does not know.
\<close>

lemma handle_event_succeeded:
  "event_type event = ''payment_intent.succeeded'' \<Longrightarrow>
     handle_event event =
       [ConsoleLog [Val (JStr (check_mark @ '' Paiement r'' @ e_acute @ ''ussi:'')),
                    Val (data_object_id event)]]"
  by (simp add: handle_event_def)

lemma handle_event_unknown:
  "event_type event \<noteq> ''payment_intent.succeeded'' \<Longrightarrow>
   event_type event \<noteq> ''payment_intent.payment_failed'' \<Longrightarrow>
     handle_event event =
       [ConsoleLog [Val (JStr (capital_E_acute @ ''v'' @ e_acute @ ''nement non g'' @ e_acute
                                 @ ''r'' @ e_acute @ '': '' @ event_type event))]]"
  by (simp add: handle_event_def)

text \<open>
  No event reaches it over HTTP: the JSON parser in front of every route has parsed the
  body before \<^verbatim>\<open>express.raw\<close> sees it, and \<^verbatim>\<open>express.raw\<close> then leaves the request
  alone, so the handler never holds the raw bytes the signature was made over.
\<close>

lemma handler_never_sees_raw_body:
  "express_json parse req = Inr b \<Longrightarrow> express_raw req b \<noteq> RawBody bytes"
  by (auto simp add: express_json_def express_raw_def split: if_splits sum.splits)

text \<open>
  Claim C5 fails on the code. The gateway's library verifies a signature over the raw
  body and refuses any other payload. With such a library, no request to the route makes
  an event branch run, whatever its signature: a request whose body is JSON, as the
  gateway's are, is answered 400, the one of a correctly signed succeeded payment
  included, where the claim asks for one run of the success path and 200 with
  \<open>received: true\<close>.
\<close>

theorem signed_event_never_dispatched:
  assumes "\<forall>b sig secret. (\<forall>bytes. b \<noteq> RawBody bytes) \<longrightarrow>
             (\<exists>message. constructEvent b sig secret = Inl message)"
  shows "filter is_console_log
           (snd (webhook_route parse constructEvent NODE_ENV webhookSecret req)) = []
         \<and> status (fst (webhook_route parse constructEvent NODE_ENV webhookSecret req)) \<noteq> 200
         \<and> (json_content req \<and> (\<exists>obj. parse (raw_bytes req) = Inr obj) \<longrightarrow>
              status (fst (webhook_route parse constructEvent NODE_ENV webhookSecret req)) = 400)"
proof (cases "express_json parse req")
  case (Inl message)
  then have "webhook_route parse constructEvent NODE_ENV webhookSecret req =
      error_middleware NODE_ENV message"
    by (simp add: webhook_route_def)
  moreover from Inl have "\<not> (json_content req \<and> (\<exists>obj. parse (raw_bytes req) = Inr obj))"
    by (auto simp add: express_json_def split: if_splits sum.splits)
  ultimately show ?thesis
    by (simp add: error_middleware_def res_status_json_def)
next
  case (Inr b)
  then have "\<forall>bytes. express_raw req b \<noteq> RawBody bytes"
    by (simp add: handler_never_sees_raw_body)
  with assms obtain message where
    "constructEvent (express_raw req b) (stripe_signature req) webhookSecret = Inl message"
    by blast
  with Inr show ?thesis
    by (simp add: webhook_route_def webhook_def res_status_send_def)
qed

theorem signed_event_never_dispatched_witness:
  "webhook_route sample_json_parse sample_constructEvent None (Some ''whsec_1'')
       sample_event_request =
     (\<lparr>status = 400,
        body = Text ''Webhook Error: No signatures found matching the expected signature for payload.''\<rparr>,
      [ConsoleError [Val (JStr ''Webhook signature verification failed:''),
                     Val (JStr ''No signatures found matching the expected signature for payload.'')]])
   \<and> filter is_console_log
        (snd (webhook_route sample_json_parse sample_constructEvent None (Some ''whsec_1'')
                sample_event_request)) = []
   \<and> status (fst (webhook_route sample_json_parse sample_constructEvent None (Some ''whsec_1'')
                sample_event_request)) = 400"
proof -
  have refuses: "\<forall>(b :: webhook_event req_body) sig secret. (\<forall>bytes. b \<noteq> RawBody bytes) \<longrightarrow>
      (\<exists>message. sample_constructEvent b sig secret = Inl message)"
    by (simp add: sample_constructEvent_def split: option.split)
  have parsed: "json_content sample_event_request
      \<and> (\<exists>obj. sample_json_parse (raw_bytes sample_event_request) = Inr obj)"
    by (simp add: sample_event_request_def sample_json_parse_def)
  have "webhook_route sample_json_parse sample_constructEvent None (Some ''whsec_1'')
       sample_event_request =
     (\<lparr>status = 400,
        body = Text ''Webhook Error: No signatures found matching the expected signature for payload.''\<rparr>,
      [ConsoleError [Val (JStr ''Webhook signature verification failed:''),
                     Val (JStr ''No signatures found matching the expected signature for payload.'')]])"
    by (simp add: webhook_route_def express_json_def express_raw_def webhook_def
        sample_event_request_def sample_json_parse_def sample_constructEvent_def
        res_status_send_def)
  with signed_event_never_dispatched
      [of sample_constructEvent sample_json_parse None "Some ''whsec_1''" sample_event_request,
       OF refuses] parsed
  show ?thesis
    by simp
qed

section \<open>Properties of POST /send-order-emails\<close>

subsection \<open>The item list\<close>

lemma split_lines_single: "CHR 0x0A \<notin> set x \<Longrightarrow> split_lines x = [x]"
  by (induction x) auto

lemma split_lines_first:
  "CHR 0x0A \<notin> set x \<Longrightarrow> split_lines (x @ CHR 0x0A # r) = x # split_lines r"
  by (induction x) auto

lemma split_lines_join:
  "ls \<noteq> [] \<Longrightarrow> \<forall>l \<in> set ls. CHR 0x0A \<notin> set l \<Longrightarrow>
     split_lines (join ''\<newline>'' ls) = ls"
proof (induction "''\<newline>''" ls rule: join.induct)
  case 1
  then show ?case by simp
next
  case (2 x)
  then show ?case by (simp add: split_lines_single)
next
  case (3 x y ys)
  then show ?case by (simp add: split_lines_first)
qed

lemma itemsList_empty: "itemsList rt [] = []"
  by (simp add: itemsList_def)

text \<open>
  Claim C7, as the specification states it: the price of a line is the \<open>unitPrice\<close> field
  of the item. The template reads \<^verbatim>\<open>item.price\<close>: for an item that carries its price
  under \<open>unitPrice\<close>, the line ends in \<open>undefined\<close> and the unit price is not printed.
\<close>

theorem unit_price_not_read_counterexample:
  "get_prop spec_item ''unitPrice'' = JNum (Fin 15)
   \<and> itemsList sample_runtime [spec_item] = ''2x Vase - undefined'' @ euro
   \<and> itemsList sample_runtime [spec_item] \<noteq> ''2x Vase - 15'' @ euro"
  by (simp add: itemsList_def item_line_def get_prop_def spec_item_def sample_runtime_def
      sample_NumberToString_def decimal.simps digit_def)

text \<open>
  Claim C7, amended: for an order with at least one item, and when no formatted line
  contains a line break of its own, the item list has exactly one line per item, in the
  order of the items; the line of an item is its quantity, \<open>x\<close>, a space, its name,
  \<open>space hyphen space\<close>, its \<open>price\<close> field and the euro sign.
\<close>

theorem item_list_one_line_per_item:
  assumes "its \<noteq> []"
    and "\<forall>item \<in> set its. CHR 0x0A \<notin> set (item_line rt item)"
  shows "split_lines (itemsList rt its) =
           map (\<lambda>item. ToString rt (get_prop item ''quantity'') @ ''x ''
                          @ ToString rt (get_prop item ''name'') @ '' - ''
                          @ ToString rt (get_prop item ''price'') @ euro) its"
proof -
  have "split_lines (join ''\<newline>'' (map (item_line rt) its)) = map (item_line rt) its"
    using assms by (intro split_lines_join) auto
  then show ?thesis
    by (simp add: itemsList_def item_line_def)
qed

theorem item_list_one_line_per_item_witness:
  "split_lines (itemsList sample_runtime (items sample_order)) =
     [''2x Vase - 15'' @ euro, ''1x Support - 9'' @ euro]"
proof -
  have ne: "items sample_order \<noteq> []"
    by (simp add: sample_order_def)
  have nl: "\<forall>item \<in> set (items sample_order). CHR 0x0A \<notin> set (item_line sample_runtime item)"
    by (simp add: sample_order_def item_line_def get_prop_def sample_runtime_def
        sample_NumberToString_def decimal.simps digit_def euro_def)
  from item_list_one_line_per_item [OF ne nl] show ?thesis
    by (simp add: sample_order_def get_prop_def sample_runtime_def
        sample_NumberToString_def decimal.simps digit_def)
qed

subsection \<open>The two messages\<close>

text \<open>
  Claim C9: two orders that differ only in their payment identifier give the same message
  to the customer (sender, recipient, subject and body), for the same date: the customer's
  message does not depend on the payment identifier.
\<close>

theorem customer_message_ignores_payment_id:
  "compose_customerEmail rt env date (orderData\<lparr>paymentId := p\<rparr>) =
     compose_customerEmail rt env date (orderData\<lparr>paymentId := q\<rparr>)"
  by (simp add: compose_customerEmail_def customerEmail_html_def)

text \<open>
  An empty payment identifier and empty notes are rendered as absent ones are.
\<close>

lemma empty_payment_id_rendered_as_absent:
  "compose_adminEmail rt env (orderData\<lparr>paymentId := JStr []\<rparr>) =
     compose_adminEmail rt env (orderData\<lparr>paymentId := JUndefined\<rparr>)"
  by (simp add: compose_adminEmail_def adminEmail_html_def payment_id_text_def js_or_def)

lemma empty_notes_rendered_as_absent:
  "compose_adminEmail rt env (orderData\<lparr>orderNotes := JStr []\<rparr>) =
     compose_adminEmail rt env (orderData\<lparr>orderNotes := JUndefined\<rparr>)"
  by (simp add: compose_adminEmail_def adminEmail_html_def notes_section_def)

text \<open>
  Claim C8: the body of the composed administrator's message, the one handed to the
  transport, is written out here from the label of the payment identifier to its end.
  What precedes the label does not depend on the payment identifier or on the notes.
  After the label \<open>ID Paiement Stripe\<close> stands the payment identifier when the order has
  one, and \<open>N/A\<close> when it has none. After the amount stands the notes section, a heading
  and the notes, when the order has notes, and nothing at all when it has none. An
  identifier or notes are present when the field is supplied and not empty, which is the
  test the template makes (\<^verbatim>\<open>paymentId || 'N/A'\<close>, \<^verbatim>\<open>orderNotes ? ... : ''\<close>): empty
  notes give no section, not an empty one.
\<close>

theorem admin_message_payment_and_notes:
  "\<exists>pre. suffix ''<p><strong>ID Paiement Stripe :</strong> '' pre \<and>
     (\<forall>pid notes.
        html (compose_adminEmail rt env (orderData\<lparr>paymentId := pid, orderNotes := notes\<rparr>)) =
          pre @ (if ToBoolean pid then ToString rt pid else ''N/A'')
            @ ''</p>\<newline>''
            @ ''            <p><strong>Montant :</strong> ''
            @ Number_toFixed2 rt (total orderData) @ euro @ ''</p>\<newline>''
            @ ''            \<newline>''
            @ ''            ''
            @ (if ToBoolean notes then ''<h3>Notes</h3><p>'' @ ToString rt notes @ ''</p>'' else [])
            @ ''\<newline>''
            @ ''        </div>\<newline>''
            @ ''        \<newline>''
            @ ''        <p><a href=\"'' @ frontend_url env
            @ ''/admin.html\">Acc'' @ e_acute @ ''der '' @ a_grave
            @ '' l'interface admin</a></p>\<newline>''
            @ ''    </div>\<newline>''
            @ ''</body>\<newline>''
            @ ''</html>\<newline>''
            @ ''            '')"
proof -
  let ?label = "''<p><strong>ID Paiement Stripe :</strong> ''"
  obtain before where cut: "admin_html_9 = before @ ?label"
    by (simp add: admin_html_9_def)
  let ?pre = "admin_html_1 @ ToString rt (orderNumber orderData) @
     admin_html_2 @ Number_toFixed2 rt (total orderData) @
     admin_html_3 @ ToString rt (firstName (shippingAddress orderData)) @
     admin_html_4 @ ToString rt (lastName (shippingAddress orderData)) @
     admin_html_5 @ ToString rt (customerEmail orderData) @
     admin_html_6 @ ToString rt (phone (shippingAddress orderData)) @
     admin_html_7 @ itemsList rt (items orderData) @
     admin_html_8 @ shippingAddress_text rt (shippingAddress orderData) @
     admin_html_9"
  have "suffix ?label ?pre"
    unfolding cut by (simp add: suffix_def)
  moreover have "\<forall>pid notes.
        html (compose_adminEmail rt env (orderData\<lparr>paymentId := pid, orderNotes := notes\<rparr>)) =
          ?pre @ (if ToBoolean pid then ToString rt pid else ''N/A'')
            @ admin_html_10 @ Number_toFixed2 rt (total orderData) @ admin_html_11
            @ (if ToBoolean notes then ''<h3>Notes</h3><p>'' @ ToString rt notes @ ''</p>'' else [])
            @ admin_html_12 @ frontend_url env @ admin_html_13"
    by (simp add: compose_adminEmail_def adminEmail_html_def payment_id_text_def js_or_def
        notes_section_def)
  ultimately show ?thesis
    unfolding admin_html_10_def admin_html_11_def admin_html_12_def admin_html_13_def
    by (intro exI [of _ ?pre]) simp
qed

subsection \<open>Sending\<close>

text \<open>
  The two messages differ (in their sender), so a transport can settle them in each of
  the four ways.
\<close>

lemma composed_messages_differ:
  "compose_customerEmail rt env date orderData \<noteq> compose_adminEmail rt env orderData"
proof
  assume "compose_customerEmail rt env date orderData = compose_adminEmail rt env orderData"
  then have "mail_from (compose_customerEmail rt env date orderData) =
      mail_from (compose_adminEmail rt env orderData)"
    by simp
  then show False
    by (simp add: compose_customerEmail_def compose_adminEmail_def)
qed

lemma every_pair_of_outcomes_possible:
  "\<exists>sendMail. sendMail (compose_customerEmail rt env date orderData) = oc
     \<and> sendMail (compose_adminEmail rt env orderData) = oa"
  using composed_messages_differ [of rt env date orderData]
  by (intro exI [of _ "\<lambda>m. if m = compose_adminEmail rt env orderData then oa else oc"]) simp

text \<open>
  Claim C4: for every order and every transport, both messages are handed to the
  transport, the customer's first; the answer is 200 with \<open>success: true\<close>, and each of
  the two flags is the outcome of its own message alone. In particular, when the
  customer's message is rejected and the administrator's is delivered, the answer is
  \<open>success: true, customerEmailSent: false, adminEmailSent: true\<close>.
\<close>

theorem both_sends_recorded_independently:
  "sent_mails (snd (send_order_emails rt env date sendMail (Some orderData))) =
     [compose_customerEmail rt env date orderData, compose_adminEmail rt env orderData]
   \<and> fst (send_order_emails rt env date sendMail (Some orderData)) =
       \<lparr>status = 200,
        body = Json [(''success'', JBool True),
                     (''customerEmailSent'',
                        JBool (sendMail (compose_customerEmail rt env date orderData) = fulfilled)),
                     (''adminEmailSent'',
                        JBool (sendMail (compose_adminEmail rt env orderData) = fulfilled))]\<rparr>
   \<and> (sendMail (compose_customerEmail rt env date orderData) = rejected
        \<and> sendMail (compose_adminEmail rt env orderData) = fulfilled \<longrightarrow>
      fst (send_order_emails rt env date sendMail (Some orderData)) =
        \<lparr>status = 200,
         body = Json [(''success'', JBool True), (''customerEmailSent'', JBool False),
                      (''adminEmailSent'', JBool True)]\<rparr>)"
  by (simp add: send_order_emails_def res_json_def Let_def)

theorem both_sends_recorded_independently_witness:
  "fst (send_order_emails sample_runtime sample_env ''02/11/2026'' sample_sendMail
          (Some sample_order)) =
     \<lparr>status = 200,
      body = Json [(''success'', JBool True), (''customerEmailSent'', JBool False),
                   (''adminEmailSent'', JBool True)]\<rparr>"
proof -
  have c: "sample_sendMail
      (compose_customerEmail sample_runtime sample_env ''02/11/2026'' sample_order) = rejected"
    by (simp add: sample_sendMail_def compose_customerEmail_def sample_order_def)
  have a: "sample_sendMail (compose_adminEmail sample_runtime sample_env sample_order) = fulfilled"
    by (simp add: sample_sendMail_def compose_adminEmail_def)
  from both_sends_recorded_independently
      [of sample_runtime sample_env "''02/11/2026''" sample_sendMail sample_order] c a
  show ?thesis
    by simp
qed

end
